theory Spec2Isabelle
  imports Complex_Main "HOL-Library.AList"
begin

section \<open>Text primitives of the host language\<close>

text \<open>
  The converter \<^verbatim>\<open>obj-to-json.py\<close> is thirty lines of Python built on the string
  methods \<^verbatim>\<open>strip\<close>, \<^verbatim>\<open>split\<close>, \<^verbatim>\<open>find\<close> and on the constructors \<^verbatim>\<open>float\<close> and
  \<^verbatim>\<open>int\<close>. A text is a \<^typ>\<open>string\<close> with one \<^typ>\<open>char\<close> per code point, so the model
  covers texts whose code points are below 256.
\<close>

definition isspace :: "char \<Rightarrow> bool" where
  \<comment> \<open>\<^verbatim>\<open>str.isspace\<close> on one code point below 256: TAB, LF, VT, FF, CR, FS, GS, RS, US,
      SPACE, NEL and NBSP.\<close>
  "isspace c = (c \<in> set [CHR 0x09, CHR 0x0A, CHR 0x0B, CHR 0x0C, CHR 0x0D,
                          CHR 0x1C, CHR 0x1D, CHR 0x1E, CHR 0x1F, CHR 0x20,
                          CHR 0x85, CHR 0xA0])"

definition strip :: "string \<Rightarrow> string" where
  \<comment> \<open>\<^verbatim>\<open>s.strip()\<close>: leading and trailing whitespace removed.\<close>
  "strip s = rev (dropWhile isspace (rev (dropWhile isspace s)))"

definition before_hash :: "string \<Rightarrow> string" where
  \<comment> \<open>\<^verbatim>\<open>s.split('#', 1)[0]\<close>: the text in front of the first \<^verbatim>\<open>#\<close>, all of it when
      there is none.\<close>
  "before_hash s = takeWhile (\<lambda>c. c \<noteq> CHR ''#'') s"

function split_ws :: "string \<Rightarrow> string list" where
  \<comment> \<open>\<^verbatim>\<open>s.split()\<close>: the maximal runs of non-whitespace, in order.\<close>
  "split_ws [] = []"
| "split_ws (c # cs) =
     (if isspace c then split_ws cs
      else (c # takeWhile (\<lambda>x. \<not> isspace x) cs) # split_ws (dropWhile (\<lambda>x. \<not> isspace x) cs))"
  by pat_completeness auto
termination
  by (relation "measure length") (auto simp: less_Suc_eq_le length_dropWhile_le)

definition is_digit :: "char \<Rightarrow> bool" where
  "is_digit c = (c \<in> set ''0123456789'')"

definition digit_val :: "char \<Rightarrow> nat" where
  "digit_val c = of_char c - 48"

fun digits_tail :: "string \<Rightarrow> bool" where
  \<comment> \<open>What may follow a digit: \<^verbatim>\<open>(["_"] digit)*\<close>.\<close>
  "digits_tail [] = True"
| "digits_tail (c # cs) =
     (if is_digit c then digits_tail cs
      else if c = CHR ''_'' then
        (case cs of [] \<Rightarrow> False | d # ds \<Rightarrow> is_digit d \<and> digits_tail ds)
      else False)"

definition digitpart :: "string \<Rightarrow> string option" where
  \<comment> \<open>The grammar's \<^verbatim>\<open>digitpart ::= digit (["_"] digit)*\<close>; the result is the digits
      without the underscores.\<close>
  "digitpart s =
     (case s of
        [] \<Rightarrow> None
      | c # cs \<Rightarrow> if is_digit c \<and> digits_tail cs then Some (filter is_digit s) else None)"

definition nat_of_digits :: "string \<Rightarrow> nat" where
  "nat_of_digits ds = foldl (\<lambda>n c. 10 * n + digit_val c) 0 ds"

definition split_sign :: "string \<Rightarrow> bool \<times> string" where
  \<comment> \<open>An optional leading \<^verbatim>\<open>+\<close> or \<^verbatim>\<open>-\<close>; the flag says the sign is minus.\<close>
  "split_sign s =
     (case s of
        [] \<Rightarrow> (False, [])
      | c # cs \<Rightarrow> if c = CHR ''-'' then (True, cs)
                  else if c = CHR ''+'' then (False, cs)
                  else (False, s))"

definition py_int :: "string \<Rightarrow> int option" where
  \<comment> \<open>\<^verbatim>\<open>int(s)\<close> in base 10; \<^const>\<open>None\<close> where Python raises ValueError. This is
      \<^verbatim>\<open>int\<close> without a limit on the number of digits; \<open>py_int_lim\<close> below adds the limit
      of recent interpreters.\<close>
  "py_int s =
     (case split_sign (strip s) of
        (neg, body) \<Rightarrow>
          (case digitpart body of
             None \<Rightarrow> None
           | Some ds \<Rightarrow> Some (if neg then - int (nat_of_digits ds) else int (nat_of_digits ds))))"

datatype pyfloat = Finite rat | PosInf | NegInf | NaN

text \<open>
  A Python float is a binary64 value. \<^term>\<open>Finite q\<close> stands for the finite binary64
  value nearest to the rational \<open>q\<close>: the rounding of the decimal to binary is not
  modelled, only the overflow to an infinity, and the zero has no sign.
\<close>

definition round_overflow :: "rat \<Rightarrow> pyfloat" where
  \<comment> \<open>From \<open>2^1024 - 2^970\<close> on, a decimal rounds to an infinity.\<close>
  "round_overflow q =
     (if 2 ^ 1024 - 2 ^ 970 \<le> q then PosInf
      else if q \<le> - (2 ^ 1024 - 2 ^ 970) then NegInf
      else Finite q)"

definition lower :: "char \<Rightarrow> char" where
  \<comment> \<open>The lower-case form of an ASCII letter; any other character is kept.\<close>
  "lower c =
     (case map_of (zip ''ABCDEFGHIJKLMNOPQRSTUVWXYZ'' ''abcdefghijklmnopqrstuvwxyz'') c of
        None \<Rightarrow> c
      | Some l \<Rightarrow> l)"

definition is_exp_mark :: "char \<Rightarrow> bool" where
  "is_exp_mark c = (c = CHR ''e'' \<or> c = CHR ''E'')"

definition float_exponent :: "string \<Rightarrow> int option" where
  \<comment> \<open>The text from the exponent mark on: \<^verbatim>\<open>("e" | "E") [sign] digitpart\<close>, or nothing.\<close>
  "float_exponent r =
     (case r of
        [] \<Rightarrow> Some 0
      | m # ex \<Rightarrow>
          (case split_sign ex of
             (neg, ed) \<Rightarrow>
               (case digitpart ed of
                  None \<Rightarrow> None
                | Some ds \<Rightarrow> Some (if neg then - int (nat_of_digits ds) else int (nat_of_digits ds)))))"

definition float_mantissa :: "string \<Rightarrow> (string \<times> string) option" where
  \<comment> \<open>\<^verbatim>\<open>number ::= [digitpart] "." digitpart | digitpart ["."]\<close>: the digits in front of
      the point and those after it.\<close>
  "float_mantissa m =
     (let ip = takeWhile (\<lambda>c. c \<noteq> CHR ''.'') m;
          fr = dropWhile (\<lambda>c. c \<noteq> CHR ''.'') m
      in case fr of
           [] \<Rightarrow> (case digitpart ip of None \<Rightarrow> None | Some ds \<Rightarrow> Some (ds, []))
         | p # fp \<Rightarrow>
             if fp = [] then (case digitpart ip of None \<Rightarrow> None | Some ds \<Rightarrow> Some (ds, []))
             else if ip = [] then (case digitpart fp of None \<Rightarrow> None | Some fs \<Rightarrow> Some ([], fs))
             else (case digitpart ip of
                     None \<Rightarrow> None
                   | Some ds \<Rightarrow> (case digitpart fp of None \<Rightarrow> None | Some fs \<Rightarrow> Some (ds, fs))))"

definition scale10 :: "nat \<Rightarrow> int \<Rightarrow> rat" where
  "scale10 n e = (if 0 \<le> e then of_nat n * 10 ^ nat e else of_nat n / 10 ^ nat (- e))"

definition float_number :: "string \<Rightarrow> rat option" where
  \<comment> \<open>\<^verbatim>\<open>floatnumber ::= number [exponent]\<close>, as the decimal it denotes.\<close>
  "float_number b =
     (case float_mantissa (takeWhile (\<lambda>c. \<not> is_exp_mark c) b) of
        None \<Rightarrow> None
      | Some (ds, fs) \<Rightarrow>
          (case float_exponent (dropWhile (\<lambda>c. \<not> is_exp_mark c) b) of
             None \<Rightarrow> None
           | Some e \<Rightarrow> Some (scale10 (nat_of_digits (ds @ fs)) (e - int (length fs)))))"

definition py_float :: "string \<Rightarrow> pyfloat option" where
  \<comment> \<open>\<^verbatim>\<open>float(s)\<close>; \<^const>\<open>None\<close> where Python raises ValueError.\<close>
  "py_float s =
     (case split_sign (strip s) of
        (neg, body) \<Rightarrow>
          if map lower body = ''inf'' \<or> map lower body = ''infinity''
          then Some (if neg then NegInf else PosInf)
          else if map lower body = ''nan'' then Some NaN
          else (case float_number body of
                  None \<Rightarrow> None
                | Some q \<Rightarrow> Some (round_overflow (if neg then - q else q))))"

fun show_nat :: "nat \<Rightarrow> string" where
  \<comment> \<open>What \<^verbatim>\<open>'{}'.format(n)\<close> prints for a natural number.\<close>
  "show_nat n =
     (if n < 10 then [''0123456789'' ! n]
      else show_nat (n div 10) @ [''0123456789'' ! (n mod 10)])"

section \<open>The converter\<close>

record document =
  vertices :: "pyfloat list"
  indices :: "int list"

text \<open>
  Every failure of \<^verbatim>\<open>obj_to_dict\<close> is a Python \<^verbatim>\<open>ValueError\<close>. The model keeps apart
  the two \<^verbatim>\<open>raise\<close> statements of the source (with their message) and the failures
  of \<^verbatim>\<open>float\<close> and \<^verbatim>\<open>int\<close> (with the text that did not parse).
\<close>

datatype error =
    FormatError string
  | FloatParseError string
  | IntParseError string

definition line_data :: "string \<Rightarrow> string list" where
  \<comment> \<open>\<^verbatim>\<open>data = line.strip().split('#', 1)[0].split()\<close>\<close>
  "line_data line = split_ws (before_hash (strip line))"

fun parse_floats :: "string list \<Rightarrow> error + pyfloat list" where
  \<comment> \<open>\<^verbatim>\<open>float(v) for v in data[1:]\<close>, stopping at the first operand that fails.\<close>
  "parse_floats [] = Inr []"
| "parse_floats (v # vs) =
     (case py_float v of
        None \<Rightarrow> Inl (FloatParseError v)
      | Some x \<Rightarrow> (case parse_floats vs of Inl e \<Rightarrow> Inl e | Inr xs \<Rightarrow> Inr (x # xs)))"

definition before_slash :: "string \<Rightarrow> string" where
  \<comment> \<open>\<^verbatim>\<open>slash = vertex.find('/')\<close>, then \<^verbatim>\<open>vertex[:slash]\<close> unless \<^verbatim>\<open>slash\<close> is -1.\<close>
  "before_slash vertex = takeWhile (\<lambda>c. c \<noteq> CHR ''/'') vertex"

fun parse_refs :: "string list \<Rightarrow> error + int list" where
  \<comment> \<open>The loop over \<^verbatim>\<open>data[1:]\<close> of a face line: \<^verbatim>\<open>int(vertex) - 1\<close> for each operand,
      stopping at the first that fails.\<close>
  "parse_refs [] = Inr []"
| "parse_refs (vertex # vs) =
     (case py_int (before_slash vertex) of
        None \<Rightarrow> Inl (IntParseError (before_slash vertex))
      | Some r \<Rightarrow> (case parse_refs vs of Inl e \<Rightarrow> Inl e | Inr is \<Rightarrow> Inr ((r - 1) # is)))"

definition vertex_message :: "nat \<Rightarrow> string" where
  "vertex_message n = ''All vertices must be 3D, at least one vertex is '' @ show_nat n @ ''D''"

definition face_message :: "nat \<Rightarrow> string" where
  "face_message n = ''All faces must be triangles, at least one face has '' @ show_nat n @ '' vertices''"

definition process_line :: "document \<Rightarrow> string \<Rightarrow> error + document" where
  \<comment> \<open>The body of the \<^verbatim>\<open>for\<close> loop, on the two lists built so far.\<close>
  "process_line d line =
     (let data = line_data line in
      case data of
        [] \<Rightarrow> Inr d
      | kw # ops \<Rightarrow>
          if kw = ''v'' then
            if length data \<noteq> 4 then Inl (FormatError (vertex_message (length data - 1)))
            else (case parse_floats ops of
                    Inl e \<Rightarrow> Inl e
                  | Inr xs \<Rightarrow> Inr (d\<lparr>vertices := vertices d @ xs\<rparr>))
          else if kw = ''f'' then
            if length data \<noteq> 4 then Inl (FormatError (face_message (length data - 1)))
            else (case parse_refs ops of
                    Inl e \<Rightarrow> Inl e
                  | Inr is \<Rightarrow> Inr (d\<lparr>indices := indices d @ is\<rparr>))
          else Inr d)"

fun process_lines :: "document \<Rightarrow> string list \<Rightarrow> error + document" where
  \<comment> \<open>\<^verbatim>\<open>for line in obj_file\<close>: an exception leaves the loop and the function.\<close>
  "process_lines d [] = Inr d"
| "process_lines d (line # rest) =
     (case process_line d line of
        Inl e \<Rightarrow> Inl e
      | Inr d' \<Rightarrow> process_lines d' rest)"

definition obj_to_dict :: "string list \<Rightarrow> error + document" where
  \<comment> \<open>The argument is what iterating \<^verbatim>\<open>obj_file\<close> yields: its lines.\<close>
  "obj_to_dict obj_file = process_lines \<lparr>vertices = [], indices = []\<rparr> obj_file"

section \<open>The converter under a limit on the digits of an integer\<close>

text \<open>
  Interpreters from Python 3.11 on refuse, with a \<^verbatim>\<open>ValueError\<close>, to convert between \<^verbatim>\<open>str\<close>
  and \<^verbatim>\<open>int\<close> when the number has more decimal digits than
  \<^verbatim>\<open>sys.get_int_max_str_digits()\<close> (4300 unless configured, never set below 640; 0 switches the
  limit off, as in older interpreters). \<^const>\<open>py_int\<close> and \<^const>\<open>obj_to_dict\<close> above are the converter
  without the limit. The definitions below are the same loop with \<^verbatim>\<open>int\<close> under the limit
  \<open>maxd\<close>; they are what the command-line program runs, since \<^verbatim>\<open>json.dump\<close> meets the same
  limit when it prints an index.
\<close>

definition py_int_lim :: "nat \<Rightarrow> string \<Rightarrow> int option" where
  \<comment> \<open>\<^verbatim>\<open>int(s)\<close> under the limit: a literal with more than \<open>maxd\<close> digits raises ValueError
      too.\<close>
  "py_int_lim maxd s =
     (if 0 < maxd \<and> maxd < length (filter is_digit s) then None else py_int s)"

fun parse_refs_lim :: "nat \<Rightarrow> string list \<Rightarrow> error + int list" where
  "parse_refs_lim maxd [] = Inr []"
| "parse_refs_lim maxd (vertex # vs) =
     (case py_int_lim maxd (before_slash vertex) of
        None \<Rightarrow> Inl (IntParseError (before_slash vertex))
      | Some r \<Rightarrow>
          (case parse_refs_lim maxd vs of Inl e \<Rightarrow> Inl e | Inr is \<Rightarrow> Inr ((r - 1) # is)))"

definition process_line_lim :: "nat \<Rightarrow> document \<Rightarrow> string \<Rightarrow> error + document" where
  "process_line_lim maxd d line =
     (let data = line_data line in
      case data of
        [] \<Rightarrow> Inr d
      | kw # ops \<Rightarrow>
          if kw = ''v'' then
            if length data \<noteq> 4 then Inl (FormatError (vertex_message (length data - 1)))
            else (case parse_floats ops of
                    Inl e \<Rightarrow> Inl e
                  | Inr xs \<Rightarrow> Inr (d\<lparr>vertices := vertices d @ xs\<rparr>))
          else if kw = ''f'' then
            if length data \<noteq> 4 then Inl (FormatError (face_message (length data - 1)))
            else (case parse_refs_lim maxd ops of
                    Inl e \<Rightarrow> Inl e
                  | Inr is \<Rightarrow> Inr (d\<lparr>indices := indices d @ is\<rparr>))
          else Inr d)"

fun process_lines_lim :: "nat \<Rightarrow> document \<Rightarrow> string list \<Rightarrow> error + document" where
  "process_lines_lim maxd d [] = Inr d"
| "process_lines_lim maxd d (line # rest) =
     (case process_line_lim maxd d line of
        Inl e \<Rightarrow> Inl e
      | Inr d' \<Rightarrow> process_lines_lim maxd d' rest)"

definition obj_to_dict_lim :: "nat \<Rightarrow> string list \<Rightarrow> error + document" where
  "obj_to_dict_lim maxd obj_file = process_lines_lim maxd \<lparr>vertices = [], indices = []\<rparr> obj_file"

section \<open>The command-line program\<close>

text \<open>
  \<^verbatim>\<open>main\<close> lets \<^verbatim>\<open>argparse\<close> open both positional arguments while it parses the command
  line (\<^verbatim>\<open>FileType('r')\<close> for the OBJ file, then \<^verbatim>\<open>FileType('w')\<close> for the JSON file) and
  then runs \<^verbatim>\<open>json.dump(obj_to_dict(args.obj), args.json)\<close>. The file system is an
  association list from paths to contents. Before a run every file is a text; after it
  the output file may hold a serialised document, or part of one. The serialiser of the
  standard library is not modelled as a text: \<open>JsonDump d\<close> is the text that \<^verbatim>\<open>json.dump\<close>
  writes for \<open>d\<close>, and \<open>PartialJsonDump d\<close> is the part of it that was written when
  \<^verbatim>\<open>json.dump\<close> raised. \<^verbatim>\<open>json.dump\<close> writes the document piece by piece and nothing in
  \<^verbatim>\<open>main\<close> catches an exception. On a document of floats and integers it raises when an
  integer has more digits than the limit of the interpreter; the infinities and NaN are
  printed. Every path can be opened for writing and every write succeeds, and both
  arguments are paths of files: the argument \<^verbatim>\<open>-\<close>, which \<^verbatim>\<open>argparse\<close> reads as a standard
  stream, is not covered.
\<close>

fun text_lines_from :: "string \<Rightarrow> string \<Rightarrow> string list" where
  \<comment> \<open>Iterating a file opened in text mode: a line ends after LF, CR LF or a lone CR, each
      read as LF; the first argument is the line read so far.\<close>
  "text_lines_from cur [] = (if cur = [] then [] else [cur])"
| "text_lines_from cur (c # cs) =
     (if c = CHR 0x0A then (cur @ [CHR 0x0A]) # text_lines_from [] cs
      else if c = CHR 0x0D then
        (case cs of
           [] \<Rightarrow> [cur @ [CHR 0x0A]]
         | c' # cs' \<Rightarrow>
             if c' = CHR 0x0A then (cur @ [CHR 0x0A]) # text_lines_from [] cs'
             else (cur @ [CHR 0x0A]) # text_lines_from [] cs)
      else text_lines_from (cur @ [c]) cs)"

definition text_lines :: "string \<Rightarrow> string list" where
  "text_lines text = text_lines_from [] text"

datatype content = Text string | JsonDump document | PartialJsonDump document

datatype failure =
    ArgumentError
  | Uncaught error
  | DumpRaised

definition int_digits :: "int \<Rightarrow> nat" where
  \<comment> \<open>The number of decimal digits that \<^verbatim>\<open>int.__repr__\<close> prints, the sign apart.\<close>
  "int_digits i = length (show_nat (nat \<bar>i\<bar>))"

definition dump_raises :: "nat \<Rightarrow> document \<Rightarrow> bool" where
  \<comment> \<open>\<^verbatim>\<open>json.dump\<close> raises ValueError at the first index with more digits than the limit.\<close>
  "dump_raises maxd d = (0 < maxd \<and> list_ex (\<lambda>i. maxd < int_digits i) (indices d))"

definition main :: "nat \<Rightarrow> (string \<times> string) list \<Rightarrow> string \<Rightarrow> string \<Rightarrow>
    (string \<times> content) list \<times> (failure + unit)" where
  \<comment> \<open>\<open>main maxd fs obj json\<close>: the run, on an interpreter with the digit limit \<open>maxd\<close>, on
      the file system \<open>fs\<close> with the two positional arguments. A missing OBJ file ends
      the run in \<^verbatim>\<open>parse_args\<close>, before the JSON file is opened. Opening the JSON file
      creates or truncates it; the OBJ file is read after that, so it is empty by then
      when both paths name one file. \<^verbatim>\<open>json.dump\<close> runs once \<^verbatim>\<open>obj_to_dict\<close> has returned.\<close>
  "main maxd fs obj json =
     (case map_of fs obj of
        None \<Rightarrow> (map (apsnd Text) fs, Inl ArgumentError)
      | Some text \<Rightarrow>
          (case obj_to_dict_lim maxd (text_lines (if json = obj then [] else text)) of
             Inl e \<Rightarrow> (AList.update json (Text []) (map (apsnd Text) fs), Inl (Uncaught e))
           | Inr d \<Rightarrow>
               if dump_raises maxd d
               then (AList.update json (PartialJsonDump d) (map (apsnd Text) fs), Inl DumpRaised)
               else (AList.update json (JsonDump d) (map (apsnd Text) fs), Inr ())))"

section \<open>Notions used to state the properties\<close>

definition indices_in_range :: "document \<Rightarrow> bool" where
  \<comment> \<open>Every index is a zero-based vertex number of the document.\<close>
  "indices_in_range d =
     list_all (\<lambda>i. 0 \<le> i \<and> i \<le> int (length (vertices d)) div 3 - 1) (indices d)"

definition is_vertex_line :: "string \<Rightarrow> bool" where
  "is_vertex_line l = (case line_data l of [] \<Rightarrow> False | kw # ops \<Rightarrow> kw = ''v'')"

definition face_refs :: "string \<Rightarrow> int list" where
  \<comment> \<open>The 1-based vertex references that a face line carries.\<close>
  "face_refs l =
     (case line_data l of
        [] \<Rightarrow> []
      | kw # ops \<Rightarrow>
          if kw = ''f'' then List.map_filter (\<lambda>v. py_int (before_slash v)) ops else [])"

declare show_nat.simps [simp del]

section \<open>Tokens of a line\<close>

text \<open>
  The source strips the line before it cuts the comment off. The tokens are the same when
  the comment is cut off first: \<open>line_data_eq\<close>.
\<close>

lemma split_ws_all_space: "list_all isspace ws \<Longrightarrow> split_ws ws = []"
  by (induction ws) auto

lemma split_ws_nil_iff: "split_ws s = [] \<longleftrightarrow> list_all isspace s"
  by (induction s) auto

lemma split_ws_dropWhile: "split_ws (dropWhile isspace s) = split_ws s"
  by (induction s) auto

lemma takeWhile_space_nil: "list_all isspace ws \<Longrightarrow> takeWhile (\<lambda>x. \<not> isspace x) ws = []"
  by (cases ws) auto

lemma dropWhile_space_id: "list_all isspace ws \<Longrightarrow> dropWhile (\<lambda>x. \<not> isspace x) ws = ws"
  by (cases ws) auto

lemma split_ws_trailing: "list_all isspace ws \<Longrightarrow> split_ws (s @ ws) = split_ws s"
proof (induction s rule: split_ws.induct)
  case 1
  then show ?case by (simp add: split_ws_all_space)
next
  case (2 c cs)
  show ?case
  proof (cases "isspace c")
    case True
    with 2 show ?thesis by simp
  next
    case False
    note nsp = this
    show ?thesis
    proof (cases "\<exists>x\<in>set cs. isspace x")
      case True
      then have "takeWhile (\<lambda>x. \<not> isspace x) (cs @ ws) = takeWhile (\<lambda>x. \<not> isspace x) cs"
        and "dropWhile (\<lambda>x. \<not> isspace x) (cs @ ws) = dropWhile (\<lambda>x. \<not> isspace x) cs @ ws"
        by (auto simp: takeWhile_append1 dropWhile_append1)
      with 2 nsp show ?thesis by simp
    next
      case False
      then have all: "\<forall>x\<in>set cs. \<not> isspace x" by simp
      then have a: "takeWhile (\<lambda>x. \<not> isspace x) cs = cs"
        and b: "dropWhile (\<lambda>x. \<not> isspace x) cs = []"
        by simp_all
      from all have c: "takeWhile (\<lambda>x. \<not> isspace x) (cs @ ws) = cs"
        and d: "dropWhile (\<lambda>x. \<not> isspace x) (cs @ ws) = ws"
        using "2.prems"
        by (simp_all add: takeWhile_append2 dropWhile_append2 takeWhile_space_nil
            dropWhile_space_id)
      from nsp "2.prems" show ?thesis by (simp add: a b c d split_ws_all_space)
    qed
  qed
qed

lemma hash_not_space: "isspace c \<Longrightarrow> c \<noteq> CHR ''#''"
  by (auto simp: isspace_def)

lemma before_hash_dropWhile: "before_hash (dropWhile isspace s) = dropWhile isspace (before_hash s)"
  by (induction s) (auto simp: before_hash_def hash_not_space)

lemma rstrip_decomp: "\<exists>ws. list_all isspace ws \<and> s = rev (dropWhile isspace (rev s)) @ ws"
proof -
  have "rev s = takeWhile isspace (rev s) @ dropWhile isspace (rev s)" by simp
  then have "s = rev (dropWhile isspace (rev s)) @ rev (takeWhile isspace (rev s))"
    by (metis rev_append rev_rev_ident)
  moreover have "list_all isspace (rev (takeWhile isspace (rev s)))"
    by (simp add: list_all_iff) (meson set_takeWhileD)
  ultimately show ?thesis by blast
qed

lemma split_ws_before_hash_trailing:
  assumes "list_all isspace ws"
  shows "split_ws (before_hash (s @ ws)) = split_ws (before_hash s)"
proof (cases "CHR ''#'' \<in> set s")
  case True
  then show ?thesis by (auto simp: before_hash_def takeWhile_append1)
next
  case False
  have "CHR ''#'' \<notin> set ws"
    using assms hash_not_space by (auto simp: list_all_iff)
  with False have "before_hash (s @ ws) = s @ ws" and "before_hash s = s"
    by (auto simp: before_hash_def)
  with assms show ?thesis by (simp add: split_ws_trailing)
qed

lemma line_data_eq: "line_data l = split_ws (before_hash l)"
proof -
  obtain ws where ws: "list_all isspace ws"
    and eq: "dropWhile isspace l = strip l @ ws"
    using rstrip_decomp [of "dropWhile isspace l"] by (auto simp: strip_def)
  have "line_data l = split_ws (before_hash (strip l @ ws))"
    by (simp add: line_data_def split_ws_before_hash_trailing [OF ws])
  also have "\<dots> = split_ws (before_hash (dropWhile isspace l))" by (simp add: eq)
  also have "\<dots> = split_ws (before_hash l)"
    by (simp add: before_hash_dropWhile split_ws_dropWhile)
  finally show ?thesis .
qed

section \<open>The loop over the lines\<close>

lemma process_lines_append:
  "process_lines d (pre @ rest) =
     (case process_lines d pre of Inl e \<Rightarrow> Inl e | Inr d' \<Rightarrow> process_lines d' rest)"
  by (induction pre arbitrary: d) (auto split: sum.splits)

lemma process_lines_failing_line:
  assumes "\<And>d. process_line d l = Inl e"
  shows "\<exists>e'. process_lines d (pre @ l # post) = Inl e'"
    and "process_lines d pre = Inr d' \<Longrightarrow> process_lines d (pre @ l # post) = Inl e"
  using assms by (auto simp: process_lines_append split: sum.splits)

lemma process_lines_same_line:
  assumes "\<And>d. process_line d l = process_line d l'"
  shows "process_lines d (pre @ l # post) = process_lines d (pre @ l' # post)"
  using assms by (simp add: process_lines_append split: sum.splits)

lemma process_lines_skip_line:
  assumes "\<And>d. process_line d l = Inr d"
  shows "process_lines d (pre @ l # post) = process_lines d (pre @ post)"
  using assms by (simp add: process_lines_append split: sum.splits)

lemma vertex_line_arity:
  assumes "line_data l = ''v'' # ops" and "length ops \<noteq> 3"
  shows "process_line d l = Inl (FormatError
           (''All vertices must be 3D, at least one vertex is '' @ show_nat (length ops) @ ''D''))"
  using assms by (simp add: process_line_def vertex_message_def)

lemma face_line_arity:
  assumes "line_data l = ''f'' # ops" and "length ops \<noteq> 3"
  shows "process_line d l = Inl (FormatError
           (''All faces must be triangles, at least one face has '' @ show_nat (length ops)
              @ '' vertices''))"
  using assms by (simp add: process_line_def face_message_def)

lemma parse_refs_before_slash: "parse_refs (map before_slash ops) = parse_refs ops"
  by (induction ops) (auto simp: before_slash_def split: option.splits sum.splits)

lemma parse_refs_Some:
  "map (\<lambda>v. py_int (before_slash v)) ops = map Some rs \<Longrightarrow>
   parse_refs ops = Inr (map (\<lambda>r. r - 1) rs)"
  by (induction ops arbitrary: rs) auto

lemma parse_floats_length: "parse_floats ops = Inr xs \<Longrightarrow> length xs = length ops"
  by (induction ops arbitrary: xs) (auto split: option.splits sum.splits)

lemma parse_refs_result:
  "parse_refs ops = Inr is \<Longrightarrow>
   is = map (\<lambda>r. r - 1) (List.map_filter (\<lambda>v. py_int (before_slash v)) ops)
   \<and> length is = length ops"
  by (induction ops arbitrary: "is") (auto simp: map_filter_simps split: option.splits sum.splits)

lemma process_line_effect:
  assumes "process_line d l = Inr d'"
  shows "length (vertices d') = length (vertices d) + (if is_vertex_line l then 3 else 0)"
    and "indices d' = indices d @ map (\<lambda>r. r - 1) (face_refs l)"
    and "length (indices d') mod 3 = length (indices d) mod 3"
  using assms
  by (auto simp: process_line_def is_vertex_line_def face_refs_def Let_def
      dest!: parse_floats_length parse_refs_result
      split: list.splits if_splits sum.splits)

lemma process_lines_effect:
  assumes "process_lines d ls = Inr d'"
  shows "length (vertices d') = length (vertices d) + 3 * length (filter is_vertex_line ls)
    \<and> indices d' = indices d @ map (\<lambda>r. r - 1) (concat (map face_refs ls))"
  using assms
proof (induction ls arbitrary: d)
  case Nil
  then show ?case by simp
next
  case (Cons l ls)
  then obtain d1 where step: "process_line d l = Inr d1" and rest: "process_lines d1 ls = Inr d'"
    by (auto split: sum.splits)
  from Cons.IH [OF rest] process_line_effect(1,2) [OF step]
  show ?case by simp
qed

lemma process_lines_indices_mod:
  assumes "process_lines d ls = Inr d'"
  shows "length (indices d') mod 3 = length (indices d) mod 3"
  using assms
proof (induction ls arbitrary: d)
  case Nil
  then show ?case by simp
next
  case (Cons l ls)
  then obtain d1 where step: "process_line d l = Inr d1" and rest: "process_lines d1 ls = Inr d'"
    by (auto split: sum.splits)
  from Cons.IH [OF rest] process_line_effect(3) [OF step]
  show ?case by simp
qed


lemma py_int_lim_Some: "py_int_lim maxd s = Some r \<Longrightarrow> py_int s = Some r"
  by (simp add: py_int_lim_def split: if_splits)


lemma parse_refs_lim_Inr: "parse_refs_lim maxd ops = Inr is \<Longrightarrow> parse_refs ops = Inr is"
  by (induction ops arbitrary: "is")
    (auto split: option.splits sum.splits dest: py_int_lim_Some)


lemma process_line_lim_Inr:
  "process_line_lim maxd d l = Inr d' \<Longrightarrow> process_line d l = Inr d'"
  by (auto simp: process_line_lim_def process_line_def Let_def
      split: list.splits if_splits sum.splits dest: parse_refs_lim_Inr)


lemma process_lines_lim_Inr:
  "process_lines_lim maxd d ls = Inr d' \<Longrightarrow> process_lines d ls = Inr d'"
  by (induction ls arbitrary: d) (auto split: sum.splits dest: process_line_lim_Inr)


lemma obj_to_dict_lim_Inr: "obj_to_dict_lim maxd ls = Inr d \<Longrightarrow> obj_to_dict ls = Inr d"
  by (simp add: obj_to_dict_lim_def obj_to_dict_def process_lines_lim_Inr)

lemma parse_refs_lim_0: "parse_refs_lim 0 ops = parse_refs ops"
  by (induction ops) (auto simp: py_int_lim_def split: option.splits sum.splits)

lemma process_line_lim_0: "process_line_lim 0 d l = process_line d l"
  by (cases "line_data l")
    (auto simp: process_line_lim_def process_line_def parse_refs_lim_0 Let_def)

lemma process_lines_lim_0: "process_lines_lim 0 d ls = process_lines d ls"
  by (induction ls arbitrary: d) (auto simp: process_line_lim_0 split: sum.splits)

lemma obj_to_dict_lim_0: "obj_to_dict_lim 0 ls = obj_to_dict ls"
  by (simp add: obj_to_dict_lim_def obj_to_dict_def process_lines_lim_0)

lemma before_slash_cut: "CHR ''/'' \<notin> set a \<Longrightarrow> before_slash (a @ CHR ''/'' # x) = a"
  by (induction a) (auto simp: before_slash_def)

lemma before_slash_whole: "CHR ''/'' \<notin> set a \<Longrightarrow> before_slash a = a"
  by (induction a) (auto simp: before_slash_def)

lemma before_slash_operands:
  "list_all2 (\<lambda>v a. CHR ''/'' \<notin> set a \<and> (v = a \<or> (\<exists>x. v = a @ CHR ''/'' # x))) ops ops'
   \<Longrightarrow> map before_slash ops = ops'"
  by (induction ops ops' rule: list_all2_induct)
    (auto simp: before_slash_cut before_slash_whole)


lemma parse_floats_fail:
  "v \<in> set ops \<Longrightarrow> py_float v = None \<Longrightarrow>
   \<exists>u. u \<in> set ops \<and> py_float u = None \<and> parse_floats ops = Inl (FloatParseError u)"
  by (induction ops) (auto split: option.splits sum.splits)

lemma parse_refs_fail:
  "v \<in> set ops \<Longrightarrow> py_int (before_slash v) = None \<Longrightarrow>
   \<exists>u. u \<in> set ops \<and> py_int (before_slash u) = None
     \<and> parse_refs ops = Inl (IntParseError (before_slash u))"
  by (induction ops) (auto split: option.splits sum.splits)

lemma bad_number_line_fails:
  assumes "line_data l = kw # ops"
    and "(kw = ''v'' \<and> v \<in> set ops \<and> py_float v = None)
       \<or> (kw = ''f'' \<and> v \<in> set ops \<and> py_int (before_slash v) = None)"
  shows "\<exists>e. \<forall>d. process_line d l = Inl e"
    and "length ops = 3 \<Longrightarrow>
      \<exists>u. u \<in> set ops \<and>
        (if kw = ''v'' then py_float u = None \<and> (\<forall>d. process_line d l = Inl (FloatParseError u))
         else py_int (before_slash u) = None
           \<and> (\<forall>d. process_line d l = Inl (IntParseError (before_slash u))))"
proof -
  show "\<exists>e. \<forall>d. process_line d l = Inl e"
    using assms parse_floats_fail [of v ops] parse_refs_fail [of v ops]
    by (cases "length ops = 3") (auto simp: process_line_def)
  show "\<exists>u. u \<in> set ops \<and>
        (if kw = ''v'' then py_float u = None \<and> (\<forall>d. process_line d l = Inl (FloatParseError u))
         else py_int (before_slash u) = None
           \<and> (\<forall>d. process_line d l = Inl (IntParseError (before_slash u))))"
    if len: "length ops = 3"
  proof (cases "kw = ''v''")
    case True
    with assms(2) obtain u where "u \<in> set ops" and "py_float u = None"
      and "parse_floats ops = Inl (FloatParseError u)"
      using parse_floats_fail [of v ops] by auto
    with True len assms(1) show ?thesis
      by (intro exI [of _ u]) (simp add: process_line_def)
  next
    case False
    with assms(2) obtain u where "kw = ''f''" and "u \<in> set ops"
      and "py_int (before_slash u) = None"
      and "parse_refs ops = Inl (IntParseError (before_slash u))"
      using parse_refs_fail [of v ops] by auto
    with len assms(1) show ?thesis
      by (intro exI [of _ u]) (simp add: process_line_def)
  qed
qed

section \<open>Evaluating the converter on concrete lines\<close>

lemma process_line_vertex:
  assumes "line_data l = [''v'', a, b, c]"
    and "py_float a = Some x" and "py_float b = Some y" and "py_float c = Some z"
  shows "process_line d l = Inr (d\<lparr>vertices := vertices d @ [x, y, z]\<rparr>)"
  using assms by (simp add: process_line_def)

lemma process_line_face:
  assumes "line_data l = [''f'', a, b, c]"
    and "py_int (before_slash a) = Some i" and "py_int (before_slash b) = Some j"
    and "py_int (before_slash c) = Some k"
  shows "process_line d l = Inr (d\<lparr>indices := indices d @ [i - 1, j - 1, k - 1]\<rparr>)"
  using assms by (simp add: process_line_def)

lemmas float_defs = py_float_def strip_def isspace_def split_sign_def lower_def float_number_def
  float_mantissa_def float_exponent_def digitpart_def is_digit_def is_exp_mark_def
  nat_of_digits_def digit_val_def scale10_def round_overflow_def

lemma py_float_0: "py_float ''0'' = Some (Finite 0)"
  by (simp add: float_defs)

lemma py_float_1: "py_float ''1'' = Some (Finite 1)"
  by (simp add: float_defs)

lemma py_float_nan: "py_float ''nan'' = Some NaN"
  by (simp add: float_defs)

lemma py_float_inf: "py_float ''inf'' = Some PosInf"
  by (simp add: float_defs)

lemma py_float_minus_inf: "py_float ''-inf'' = Some NegInf"
  by (simp add: float_defs)

lemma py_float_minus_Infinity: "py_float ''-Infinity'' = Some NegInf"
  by (simp add: float_defs)

lemma py_int_1: "py_int ''1'' = Some 1"
  by code_simp

lemma py_int_2: "py_int ''2'' = Some 2"
  by code_simp

lemma py_int_3: "py_int ''3'' = Some 3"
  by code_simp

lemma before_slash_plain:
  "before_slash ''1'' = ''1''" "before_slash ''2'' = ''2''" "before_slash ''3'' = ''3''"
  by (simp_all add: before_slash_def)

lemma data_v000: "line_data ''v 0 0 0\<newline>'' = [''v'', ''0'', ''0'', ''0'']"
  by code_simp

lemma data_v100: "line_data ''v 1 0 0\<newline>'' = [''v'', ''1'', ''0'', ''0'']"
  by code_simp

lemma data_v010: "line_data ''v 0 1 0\<newline>'' = [''v'', ''0'', ''1'', ''0'']"
  by code_simp

lemma data_f123: "line_data ''f 1 2 3\<newline>'' = [''f'', ''1'', ''2'', ''3'']"
  by code_simp

lemma data_nonfinite: "line_data ''v nan inf -inf'' = [''v'', ''nan'', ''inf'', ''-inf'']"
  by code_simp

lemma data_Infinity: "line_data ''v -Infinity 0 0'' = [''v'', ''-Infinity'', ''0'', ''0'']"
  by code_simp

lemma triangle_run:
  "obj_to_dict [''v 0 0 0\<newline>'', ''v 1 0 0\<newline>'', ''v 0 1 0\<newline>'', ''f 1 2 3\<newline>'']
   = Inr \<lparr>vertices = [Finite 0, Finite 0, Finite 0, Finite 1, Finite 0, Finite 0,
                        Finite 0, Finite 1, Finite 0],
           indices = [0, 1, 2]\<rparr>"
  by (simp add: obj_to_dict_def
      process_line_vertex [OF data_v000 py_float_0 py_float_0 py_float_0]
      process_line_vertex [OF data_v100 py_float_1 py_float_0 py_float_0]
      process_line_vertex [OF data_v010 py_float_0 py_float_1 py_float_0]
      process_line_face [OF data_f123, of 1 2 3] before_slash_plain py_int_1 py_int_2 py_int_3)

lemma data_f_slashes:
  "line_data ''f 1/5/9 2/6/10 3/7/11'' = ''f'' # [''1/5/9'', ''2/6/10'', ''3/7/11'']"
  by code_simp

lemma data_f_quad: "line_data ''f 1 2 3 4'' = ''f'' # [''1'', ''2'', ''3'', ''4'']"
  by code_simp

lemma data_v_two: "line_data ''v 1.0 2.0'' = ''v'' # [''1.0'', ''2.0'']"
  by code_simp

lemma data_f123_alone: "line_data ''f 1 2 3'' = [''f'', ''1'', ''2'', ''3'']"
  by code_simp

lemma triangle_vertex_lines:
  "filter is_vertex_line [''v 0 0 0\<newline>'', ''v 1 0 0\<newline>'', ''v 0 1 0\<newline>'', ''f 1 2 3\<newline>'']
   = [''v 0 0 0\<newline>'', ''v 1 0 0\<newline>'', ''v 0 1 0\<newline>'']"
  by (simp add: is_vertex_line_def data_v000 data_v100 data_v010 data_f123)

lemma triangle_face_refs:
  "concat (map face_refs [''v 0 0 0\<newline>'', ''v 1 0 0\<newline>'', ''v 0 1 0\<newline>'', ''f 1 2 3\<newline>''])
   = [1, 2, 3]"
  by (simp add: face_refs_def data_v000 data_v100 data_v010 data_f123 map_filter_simps
      before_slash_plain py_int_1 py_int_2 py_int_3)

lemma comment_line_blank: "list_all isspace (before_hash ''  # v 1 2 3\<newline>'')"
  by code_simp

lemma data_vt: "split_ws (before_hash ''vt 0.5 0.5\<newline>'') = ''vt'' # [''0.5'', ''0.5'']"
  by code_simp

lemma py_float_abc: "py_float ''abc'' = None"
  by (simp add: float_defs)

lemma py_int_x: "py_int ''x'' = None"
  by code_simp

lemma data_v_abc: "line_data ''v abc'' = [''v'', ''abc'']"
  by code_simp

lemma data_v_bad: "line_data ''v 1 abc 0\<newline>'' = ''v'' # [''1'', ''abc'', ''0'']"
  by code_simp

lemma data_f_bad: "line_data ''f 1 x/2 3\<newline>'' = ''f'' # [''1'', ''x/2'', ''3'']"
  by code_simp

lemma before_slash_x: "before_slash ''x/2'' = ''x''"
  by (simp add: before_slash_def)






lemma data_f_multi: "line_data ''f 12/5 7 103//4'' = ''f'' # [''12/5'', ''7'', ''103//4'']"
  by code_simp

lemma data_f_multi_plain: "line_data ''f 12 7 103'' = ''f'' # [''12'', ''7'', ''103'']"
  by code_simp

lemma data_f_single_plain: "line_data ''f 1 2 3'' = ''f'' # [''1'', ''2'', ''3'']"
  by code_simp

lemma refs_single: "map py_int [''1'', ''2'', ''3''] = map Some [1, 2, 3]"
  by code_simp

lemma refs_multi: "map py_int [''12'', ''7'', ''103''] = map Some [12, 7, 103]"
  by code_simp

lemma cut_single:
  "list_all2 (\<lambda>v a. CHR ''/'' \<notin> set a \<and> (v = a \<or> (\<exists>x. v = a @ CHR ''/'' # x)))
     [''1/5/9'', ''2/6/10'', ''3/7/11''] [''1'', ''2'', ''3'']"
  by simp

lemma cut_multi:
  "list_all2 (\<lambda>v a. CHR ''/'' \<notin> set a \<and> (v = a \<or> (\<exists>x. v = a @ CHR ''/'' # x)))
     [''12/5'', ''7'', ''103//4''] [''12'', ''7'', ''103'']"
  by simp






section \<open>A run in which the serialiser raises\<close>

text \<open>
  Under a digit limit \<open>k\<close> the face line \<^verbatim>\<open>f 1 2 -99...9\<close> with \<open>k\<close> nines is read
  without error: its last reference has \<open>k\<close> digits. The index it yields, the reference
  minus one, has \<open>k + 1\<close> digits, so \<^verbatim>\<open>json.dump\<close> raises when it comes to print it,
  after the text in front of it has been written: the run fails and leaves a part of the
  document in the output file.
\<close>

lemma show_nat_length: "10 ^ k \<le> n \<Longrightarrow> k < length (show_nat n)"
proof (induction k arbitrary: n)
  case 0
  show ?case by (subst show_nat.simps) simp
next
  case (Suc k)
  have one: "(1::nat) \<le> 10 ^ k" by simp
  from Suc.prems have big: "10 * 10 ^ k \<le> n" by simp
  with one have "\<not> n < 10" by linarith
  moreover from big have "10 ^ k \<le> n div 10" by linarith
  ultimately show ?case
    using Suc.IH [of "n div 10"] by (subst show_nat.simps) simp
qed

lemma big_index_dump_raises:
  assumes "0 < k"
  shows "dump_raises k \<lparr>vertices = xs, indices = [0, 1, - (10 ^ k)]\<rparr>"
proof -
  have e: "nat \<bar>- (10 ^ k) :: int\<bar> = 10 ^ k" by (simp add: nat_power_eq)
  have "int_digits (- (10 ^ k)) = length (show_nat (10 ^ k))"
    by (simp only: int_digits_def e)
  with show_nat_length [of k "10 ^ k"] have "k < int_digits (- (10 ^ k))" by simp
  with assms show ?thesis by (simp add: dump_raises_def)
qed

lemma strip_no_space: "list_all (\<lambda>c. \<not> isspace c) s \<Longrightarrow> strip s = s"
proof -
  assume a: "list_all (\<lambda>c. \<not> isspace c) s"
  then have "dropWhile isspace s = s" by (cases s) auto
  moreover from a have "list_all (\<lambda>c. \<not> isspace c) (rev s)" by (simp add: list_all_iff)
  then have "dropWhile isspace (rev s) = rev s" by (cases "rev s") auto
  ultimately show ?thesis by (simp add: strip_def)
qed

lemma digits_tail_nines: "digits_tail (replicate j (CHR ''9''))"
  by (induction j) (simp_all add: is_digit_def)

lemma foldl_nines:
  "foldl (\<lambda>n c. 10 * n + digit_val c) a (replicate k (CHR ''9'')) + 1 = (a + 1) * 10 ^ k"
  by (induction k arbitrary: a) (simp_all add: digit_val_def algebra_simps)

lemma nat_of_nines: "int (nat_of_digits (replicate k (CHR ''9''))) = 10 ^ k - 1"
proof -
  have "nat_of_digits (replicate k (CHR ''9'')) + 1 = 10 ^ k"
    using foldl_nines [of 0 k] by (simp add: nat_of_digits_def)
  then have "int (nat_of_digits (replicate k (CHR ''9'')) + 1) = int (10 ^ k)"
    by (simp only:)
  then show ?thesis by simp
qed

lemma py_int_minus_nines:
  assumes "0 < k"
  shows "py_int (CHR ''-'' # replicate k (CHR ''9'')) = Some (1 - 10 ^ k)"
proof -
  from assms obtain j where k: "k = Suc j" by (cases k) auto
  have "strip (CHR ''-'' # replicate k (CHR ''9'')) = CHR ''-'' # replicate k (CHR ''9'')"
    by (rule strip_no_space) (simp add: list_all_iff isspace_def)
  moreover have "digitpart (replicate k (CHR ''9'')) = Some (replicate k (CHR ''9''))"
    by (simp add: k digitpart_def digits_tail_nines is_digit_def)
  ultimately show ?thesis
    by (simp add: py_int_def split_sign_def nat_of_nines)
qed

lemma py_int_lim_minus_nines:
  assumes "0 < k"
  shows "py_int_lim k (before_slash (CHR ''-'' # replicate k (CHR ''9''))) = Some (1 - 10 ^ k)"
proof -
  have "before_slash (CHR ''-'' # replicate k (CHR ''9'')) = CHR ''-'' # replicate k (CHR ''9'')"
    by (rule before_slash_whole) simp
  moreover have "filter is_digit (CHR ''-'' # replicate k (CHR ''9'')) = replicate k (CHR ''9'')"
    by (simp add: is_digit_def)
  ultimately show ?thesis
    using py_int_minus_nines [OF assms] by (simp add: py_int_lim_def)
qed

lemma data_long_reference:
  "line_data (''f 1 2 -'' @ replicate k (CHR ''9''))
   = [''f'', ''1'', ''2'', CHR ''-'' # replicate k (CHR ''9'')]"
proof -
  have nine: "\<not> isspace (CHR ''9'')" by (simp add: isspace_def)
  have "before_hash (''f 1 2 -'' @ replicate k (CHR ''9'')) = ''f 1 2 -'' @ replicate k (CHR ''9'')"
    by (simp add: before_hash_def)
  then show ?thesis
    by (simp add: line_data_eq nine) (simp add: isspace_def)
qed

lemma process_line_face_lim:
  assumes "line_data l = [''f'', a, b, c]"
    and "py_int_lim maxd (before_slash a) = Some i"
    and "py_int_lim maxd (before_slash b) = Some j"
    and "py_int_lim maxd (before_slash c) = Some k"
  shows "process_line_lim maxd d l = Inr (d\<lparr>indices := indices d @ [i - 1, j - 1, k - 1]\<rparr>)"
  using assms by (simp add: process_line_lim_def)

lemma long_reference_run:
  assumes "0 < k"
  shows "obj_to_dict_lim k [''f 1 2 -'' @ replicate k (CHR ''9'')]
    = Inr \<lparr>vertices = [], indices = [0, 1, - (10 ^ k)]\<rparr>"
proof -
  have small: "py_int_lim k (before_slash ''1'') = Some 1" "py_int_lim k (before_slash ''2'') = Some 2"
    using assms py_int_1 py_int_2
    by (simp_all add: py_int_lim_def before_slash_plain is_digit_def)
  have "process_line_lim k \<lparr>vertices = [], indices = []\<rparr> (''f 1 2 -'' @ replicate k (CHR ''9''))
      = Inr \<lparr>vertices = [], indices = [0, 1, - (10 ^ k)]\<rparr>"
    using process_line_face_lim [OF data_long_reference small py_int_lim_minus_nines [OF assms],
        of "\<lparr>vertices = [], indices = []\<rparr>"]
    by simp
  then show ?thesis
    unfolding obj_to_dict_lim_def by (simp only: process_lines_lim.simps sum.case)
qed

lemma text_lines_from_one_line:
  "CHR 0x0A \<notin> set s \<Longrightarrow> CHR 0x0D \<notin> set s \<Longrightarrow> cur @ s \<noteq> [] \<Longrightarrow>
   text_lines_from cur s = [cur @ s]"
  by (induction s arbitrary: cur) auto

lemma lines_long_reference:
  "text_lines (''f 1 2 -'' @ replicate k (CHR ''9'')) = [''f 1 2 -'' @ replicate k (CHR ''9'')]"
  unfolding text_lines_def
  using text_lines_from_one_line [of "''f 1 2 -'' @ replicate k (CHR ''9'')" "[]"]
  by simp

lemma dump_failure_leaves_partial_output:
  assumes "map_of fs obj = Some text" and "json \<noteq> obj"
    and "obj_to_dict_lim maxd (text_lines text) = Inr d" and "dump_raises maxd d"
  shows "snd (main maxd fs obj json) = Inl DumpRaised"
    and "map_of (fst (main maxd fs obj json)) json = Some (PartialJsonDump d)"
  using assms by (simp_all add: main_def update_conv')

lemma long_reference_partial_output:
  assumes "0 < k"
  shows "snd (main k [(''in.obj'', ''f 1 2 -'' @ replicate k (CHR ''9''))] ''in.obj'' ''out.json'')
      = Inl DumpRaised"
    and "map_of (fst (main k [(''in.obj'', ''f 1 2 -'' @ replicate k (CHR ''9''))]
            ''in.obj'' ''out.json'')) ''out.json''
      = Some (PartialJsonDump \<lparr>vertices = [], indices = [0, 1, - (10 ^ k)]\<rparr>)"
proof -
  have input: "map_of [(''in.obj'', ''f 1 2 -'' @ replicate k (CHR ''9''))] ''in.obj''
      = Some (''f 1 2 -'' @ replicate k (CHR ''9''))"
    by simp
  have paths: "''out.json'' \<noteq> ''in.obj''" by simp
  have run: "obj_to_dict_lim k (text_lines (''f 1 2 -'' @ replicate k (CHR ''9'')))
      = Inr \<lparr>vertices = [], indices = [0, 1, - (10 ^ k)]\<rparr>"
    unfolding lines_long_reference by (rule long_reference_run [OF assms])
  note r = dump_failure_leaves_partial_output [OF input paths run big_index_dump_raises [OF assms]]
  show "snd (main k [(''in.obj'', ''f 1 2 -'' @ replicate k (CHR ''9''))] ''in.obj'' ''out.json'')
      = Inl DumpRaised"
    by (rule r(1))
  show "map_of (fst (main k [(''in.obj'', ''f 1 2 -'' @ replicate k (CHR ''9''))]
            ''in.obj'' ''out.json'')) ''out.json''
      = Some (PartialJsonDump \<lparr>vertices = [], indices = [0, 1, - (10 ^ k)]\<rparr>)"
    by (rule r(2))
qed

section \<open>The triangle example\<close>

text \<open>
  C1. The three vertex lines for (0,0,0), (1,0,0), (0,1,0) followed by one face line that
  refers to the vertices 1, 2, 3 convert to the document whose vertex list is
  0,0,0,1,0,0,0,1,0 and whose index list is 0,1,2. The lines are given as iterating the
  file yields them, each with its line end; the coordinates are the floats 0 and 1.
\<close>

theorem triangle_document:
  "obj_to_dict [''v 0 0 0\<newline>'', ''v 1 0 0\<newline>'', ''v 0 1 0\<newline>'', ''f 1 2 3\<newline>'']
   = Inr \<lparr>vertices = [Finite 0, Finite 0, Finite 0, Finite 1, Finite 0, Finite 0,
                        Finite 0, Finite 1, Finite 0],
           indices = [0, 1, 2]\<rparr>"
  by (fact triangle_run)

section \<open>Vertex references with extra fields\<close>

text \<open>
  C2. Let the operands of a face line \<open>l\<close> be those of a face line \<open>l'\<close>, each either as it
  is or followed by \<^verbatim>\<open>/\<close> and any text, where no operand of \<open>l'\<close> contains a \<^verbatim>\<open>/\<close>. Then
  what the converter keeps of each operand of \<open>l\<close> is the operand of \<open>l'\<close>: everything from
  the first \<^verbatim>\<open>/\<close> on is dropped. The two lines are processed alike in every state, so
  exchanging one for the other anywhere in an input does not change the conversion.
  When \<open>l'\<close> has three operands that read as the integers \<open>rs\<close>, the line \<open>l\<close> appends each
  of them minus one to the index list.
\<close>

theorem slash_fields_discarded:
  assumes "line_data l = ''f'' # ops" and "line_data l' = ''f'' # ops'"
    and "list_all2 (\<lambda>v a. CHR ''/'' \<notin> set a \<and> (v = a \<or> (\<exists>x. v = a @ CHR ''/'' # x)))
           ops ops'"
  shows "map before_slash ops = ops'
    \<and> process_line d l = process_line d l'
    \<and> obj_to_dict (pre @ l # post) = obj_to_dict (pre @ l' # post)
    \<and> (length ops' = 3 \<and> map py_int ops' = map Some rs \<longrightarrow>
         process_line d l = Inr (d\<lparr>indices := indices d @ map (\<lambda>r. r - 1) rs\<rparr>))"
proof -
  have cut: "map before_slash ops = ops'"
    using assms(3) by (rule before_slash_operands)
  then have len: "length ops' = length ops" by auto
  have refs: "parse_refs ops' = parse_refs ops"
    using parse_refs_before_slash [of ops] by (simp add: cut)
  have same: "process_line d l = process_line d l'" for d
    using assms(1,2) by (simp add: process_line_def refs len)
  have "process_line d l = Inr (d\<lparr>indices := indices d @ map (\<lambda>r. r - 1) rs\<rparr>)"
    if three: "length ops' = 3" and ints: "map py_int ops' = map Some rs"
  proof -
    have "map (\<lambda>v. py_int (before_slash v)) ops = map py_int (map before_slash ops)"
      by simp
    with ints have "map (\<lambda>v. py_int (before_slash v)) ops = map Some rs"
      by (simp only: cut)
    from parse_refs_Some [OF this] three assms(1) show ?thesis
      by (simp add: process_line_def len)
  qed
  with cut show ?thesis
    unfolding obj_to_dict_def using same process_lines_same_line [of l l', OF same] by blast
qed

text \<open>
  The instance of C2 named in the claim: \<^verbatim>\<open>f 1/5/9 2/6/10 3/7/11\<close> converts as
  \<^verbatim>\<open>f 1 2 3\<close> does and yields the indices 0, 1, 2. A second instance has references of
  several digits, an operand without a \<^verbatim>\<open>/\<close> and an empty field: \<^verbatim>\<open>f 12/5 7 103//4\<close>
  converts as \<^verbatim>\<open>f 12 7 103\<close> does and yields 11, 6, 102.
\<close>

theorem slash_fields_discarded_witness:
  "line_data ''f 1/5/9 2/6/10 3/7/11'' = ''f'' # [''1/5/9'', ''2/6/10'', ''3/7/11'']
   \<and> line_data ''f 1 2 3'' = ''f'' # [''1'', ''2'', ''3'']
   \<and> list_all2 (\<lambda>v a. CHR ''/'' \<notin> set a \<and> (v = a \<or> (\<exists>x. v = a @ CHR ''/'' # x)))
        [''1/5/9'', ''2/6/10'', ''3/7/11''] [''1'', ''2'', ''3'']
   \<and> length [''1'', ''2'', ''3''] = 3
   \<and> map py_int [''1'', ''2'', ''3''] = map Some [1, 2, 3]
   \<and> map before_slash [''1/5/9'', ''2/6/10'', ''3/7/11''] = [''1'', ''2'', ''3'']
   \<and> obj_to_dict [''f 1/5/9 2/6/10 3/7/11''] = obj_to_dict [''f 1 2 3'']
   \<and> process_line \<lparr>vertices = [], indices = []\<rparr> ''f 1/5/9 2/6/10 3/7/11''
       = Inr \<lparr>vertices = [], indices = [0, 1, 2]\<rparr>
   \<and> line_data ''f 12/5 7 103//4'' = ''f'' # [''12/5'', ''7'', ''103//4'']
   \<and> line_data ''f 12 7 103'' = ''f'' # [''12'', ''7'', ''103'']
   \<and> list_all2 (\<lambda>v a. CHR ''/'' \<notin> set a \<and> (v = a \<or> (\<exists>x. v = a @ CHR ''/'' # x)))
        [''12/5'', ''7'', ''103//4''] [''12'', ''7'', ''103'']
   \<and> map py_int [''12'', ''7'', ''103''] = map Some [12, 7, 103]
   \<and> map before_slash [''12/5'', ''7'', ''103//4''] = [''12'', ''7'', ''103'']
   \<and> obj_to_dict [''f 12/5 7 103//4''] = obj_to_dict [''f 12 7 103'']
   \<and> process_line \<lparr>vertices = [], indices = []\<rparr> ''f 12/5 7 103//4''
       = Inr \<lparr>vertices = [], indices = [11, 6, 102]\<rparr>"
proof -
  note a = slash_fields_discarded [OF data_f_slashes data_f_single_plain cut_single,
      where pre = "[]" and post = "[]" and d = "\<lparr>vertices = [], indices = []\<rparr>"
        and rs = "[1, 2, 3]"]
  note b = slash_fields_discarded [OF data_f_multi data_f_multi_plain cut_multi,
      where pre = "[]" and post = "[]" and d = "\<lparr>vertices = [], indices = []\<rparr>"
        and rs = "[12, 7, 103]"]
  have len: "length [''1'', ''2'', ''3''] = 3" "length [''12'', ''7'', ''103''] = 3"
    by simp_all
  note a4 = a [THEN conjunct2, THEN conjunct2, THEN conjunct2, THEN mp,
      OF conjI, OF len(1) refs_single]
  note b4 = b [THEN conjunct2, THEN conjunct2, THEN conjunct2, THEN mp,
      OF conjI, OF len(2) refs_multi]
  have a5: "process_line \<lparr>vertices = [], indices = []\<rparr> ''f 1/5/9 2/6/10 3/7/11''
      = Inr \<lparr>vertices = [], indices = [0, 1, 2]\<rparr>"
    using a4 by simp
  have b5: "process_line \<lparr>vertices = [], indices = []\<rparr> ''f 12/5 7 103//4''
      = Inr \<lparr>vertices = [], indices = [11, 6, 102]\<rparr>"
    using b4 by simp
  have a3: "obj_to_dict [''f 1/5/9 2/6/10 3/7/11''] = obj_to_dict [''f 1 2 3'']"
    using a [THEN conjunct2, THEN conjunct2, THEN conjunct1] by simp
  have b3: "obj_to_dict [''f 12/5 7 103//4''] = obj_to_dict [''f 12 7 103'']"
    using b [THEN conjunct2, THEN conjunct2, THEN conjunct1] by simp
  show ?thesis
    by (intro conjI)
      (rule data_f_slashes data_f_single_plain cut_single len refs_single a [THEN conjunct1]
        a3 a5 data_f_multi data_f_multi_plain cut_multi refs_multi b [THEN conjunct1] b3 b5)+
qed

section \<open>Operand counts\<close>

text \<open>
  C3. A line whose first token is \<^verbatim>\<open>v\<close> and which does not have exactly three operands
  fails, in every state, with the format error whose message names the 3D rule and the
  number of operands of the line. Hence every input that contains such a line fails, and
  it fails with this very error when the lines in front of it are processed without
  error (the error of a run is that of its first offending line).
\<close>

theorem vertex_operand_count:
  assumes "line_data l = ''v'' # ops" and "length ops \<noteq> 3"
  shows "process_line d l = Inl (FormatError
           (''All vertices must be 3D, at least one vertex is '' @ show_nat (length ops) @ ''D''))
    \<and> (\<exists>e. obj_to_dict (pre @ l # post) = Inl e)
    \<and> (obj_to_dict pre = Inr d' \<longrightarrow>
         obj_to_dict (pre @ l # post) = Inl (FormatError
           (''All vertices must be 3D, at least one vertex is '' @ show_nat (length ops) @ ''D'')))"
  unfolding obj_to_dict_def
  using process_lines_failing_line [of l, OF vertex_line_arity [OF assms]]
    vertex_line_arity [OF assms, of d]
  by blast

text \<open>
  The instance of C3 named in the claim: \<^verbatim>\<open>v 1.0 2.0\<close> fails with a message that
  ends in \<^verbatim>\<open>2D\<close>.
\<close>

theorem vertex_operand_count_witness:
  "line_data ''v 1.0 2.0'' = ''v'' # [''1.0'', ''2.0'']
   \<and> length [''1.0'', ''2.0''] \<noteq> 3
   \<and> obj_to_dict [] = Inr \<lparr>vertices = [], indices = []\<rparr>
   \<and> obj_to_dict [''v 1.0 2.0'']
       = Inl (FormatError ''All vertices must be 3D, at least one vertex is 2D'')"
  using vertex_operand_count [OF data_v_two, where pre = "[]" and post = "[]"
      and d = "\<lparr>vertices = [], indices = []\<rparr>" and d' = "\<lparr>vertices = [], indices = []\<rparr>"]
  by (simp add: data_v_two show_nat.simps obj_to_dict_def)

text \<open>
  C4. A line whose first token is \<^verbatim>\<open>f\<close> and which does not have exactly three operands
  fails, in every state, with the format error whose message names the triangle rule and
  the number of operands of the line. Hence every input that contains such a line fails,
  and it fails with this very error when the lines in front of it are processed without
  error.
\<close>

theorem face_operand_count:
  assumes "line_data l = ''f'' # ops" and "length ops \<noteq> 3"
  shows "process_line d l = Inl (FormatError
           (''All faces must be triangles, at least one face has '' @ show_nat (length ops)
              @ '' vertices''))
    \<and> (\<exists>e. obj_to_dict (pre @ l # post) = Inl e)
    \<and> (obj_to_dict pre = Inr d' \<longrightarrow>
         obj_to_dict (pre @ l # post) = Inl (FormatError
           (''All faces must be triangles, at least one face has '' @ show_nat (length ops)
              @ '' vertices'')))"
  unfolding obj_to_dict_def
  using process_lines_failing_line [of l, OF face_line_arity [OF assms]]
    face_line_arity [OF assms, of d]
  by blast

text \<open>
  The instance of C4 named in the claim: a face line with four references fails with a
  message that ends in \<^verbatim>\<open>4 vertices\<close>.
\<close>

theorem face_operand_count_witness:
  "line_data ''f 1 2 3 4'' = ''f'' # [''1'', ''2'', ''3'', ''4'']
   \<and> length [''1'', ''2'', ''3'', ''4''] \<noteq> 3
   \<and> obj_to_dict [] = Inr \<lparr>vertices = [], indices = []\<rparr>
   \<and> obj_to_dict [''f 1 2 3 4'']
       = Inl (FormatError ''All faces must be triangles, at least one face has 4 vertices'')"
  using face_operand_count [OF data_f_quad, where pre = "[]" and post = "[]"
      and d = "\<lparr>vertices = [], indices = []\<rparr>" and d' = "\<lparr>vertices = [], indices = []\<rparr>"]
  by (simp add: data_f_quad show_nat.simps obj_to_dict_def)

section \<open>Lengths of the two lists\<close>

text \<open>
  C5. When the conversion succeeds, the length of the vertex list and the length of the
  index list are multiples of 3, and so they are after each line: the conversion of
  every prefix of the input succeeds too, with lists of such lengths.
\<close>

theorem lengths_multiple_of_three:
  assumes "obj_to_dict ls = Inr d"
  shows "length (vertices d) mod 3 = 0 \<and> length (indices d) mod 3 = 0
    \<and> (\<forall>n. \<exists>d'. obj_to_dict (take n ls) = Inr d'
          \<and> length (vertices d') mod 3 = 0 \<and> length (indices d') mod 3 = 0)"
proof -
  have inv: "length (vertices d') mod 3 = 0 \<and> length (indices d') mod 3 = 0"
    if "obj_to_dict xs = Inr d'" for xs d'
    using process_lines_effect [of "\<lparr>vertices = [], indices = []\<rparr>" xs d']
      process_lines_indices_mod [of "\<lparr>vertices = [], indices = []\<rparr>" xs d'] that
    by (simp add: obj_to_dict_def)
  have "\<exists>d'. obj_to_dict (take n ls) = Inr d'" for n
  proof -
    have "obj_to_dict (take n ls @ drop n ls) = Inr d" using assms by simp
    then show ?thesis
      unfolding obj_to_dict_def process_lines_append by (auto split: sum.splits)
  qed
  with inv assms show ?thesis by blast
qed

theorem lengths_multiple_of_three_witness:
  "obj_to_dict [''v 0 0 0\<newline>'', ''v 1 0 0\<newline>'', ''v 0 1 0\<newline>'', ''f 1 2 3\<newline>'']
     = Inr \<lparr>vertices = [Finite 0, Finite 0, Finite 0, Finite 1, Finite 0, Finite 0,
                          Finite 0, Finite 1, Finite 0],
             indices = [0, 1, 2]\<rparr>
   \<and> length (vertices \<lparr>vertices = [Finite 0, Finite 0, Finite 0, Finite 1, Finite 0, Finite 0,
                          Finite 0, Finite 1, Finite 0],
             indices = [0, 1, 2]\<rparr>) mod 3 = 0
   \<and> length (indices \<lparr>vertices = [Finite 0, Finite 0, Finite 0, Finite 1, Finite 0, Finite 0,
                          Finite 0, Finite 1, Finite 0],
             indices = [0, 1, 2]\<rparr>) mod 3 = 0
   \<and> (\<exists>d'. obj_to_dict (take 2 [''v 0 0 0\<newline>'', ''v 1 0 0\<newline>'', ''v 0 1 0\<newline>'',
                                    ''f 1 2 3\<newline>'']) = Inr d'
          \<and> length (vertices d') mod 3 = 0 \<and> length (indices d') mod 3 = 0)"
  using lengths_multiple_of_three [OF triangle_run] triangle_run
  by blast

section \<open>Range of the indices\<close>

text \<open>
  C6 fails as stated: the converter never compares a vertex reference with the number of
  vertices. The input \<^verbatim>\<open>f 1 2 3\<close> alone converts to a document without vertices whose
  indices are 0, 1, 2.
\<close>

theorem indices_out_of_range_counterexample:
  "obj_to_dict [''f 1 2 3''] = Inr \<lparr>vertices = [], indices = [0, 1, 2]\<rparr>
   \<and> \<not> indices_in_range \<lparr>vertices = [], indices = [0, 1, 2]\<rparr>"
  by (simp add: obj_to_dict_def indices_in_range_def
      process_line_face [OF data_f123_alone, of 1 2 3] before_slash_plain
      py_int_1 py_int_2 py_int_3)

text \<open>
  C6, amended. When the conversion succeeds, the index list holds every vertex reference
  of the face lines minus one, in order, and the vertex list holds three coordinates for
  each vertex line. So every index is a zero-based vertex number of the document provided
  that every vertex reference of the input lies between 1 and the number of its vertex
  lines.
\<close>

theorem indices_in_range_when_refs_valid:
  assumes "obj_to_dict ls = Inr d"
    and "list_all (\<lambda>r. 1 \<le> r \<and> r \<le> int (length (filter is_vertex_line ls)))
           (concat (map face_refs ls))"
  shows "indices d = map (\<lambda>r. r - 1) (concat (map face_refs ls))
    \<and> length (vertices d) = 3 * length (filter is_vertex_line ls)
    \<and> indices_in_range d"
proof -
  from process_lines_effect [of "\<lparr>vertices = [], indices = []\<rparr>" ls d] assms(1)
  have i: "indices d = map (\<lambda>r. r - 1) (concat (map face_refs ls))"
    and v: "length (vertices d) = 3 * length (filter is_vertex_line ls)"
    by (simp_all add: obj_to_dict_def)
  from assms(2) have "indices_in_range d"
    unfolding indices_in_range_def i v by (fastforce simp: list_all_iff)
  with i v show ?thesis by simp
qed

theorem indices_in_range_when_refs_valid_witness:
  "obj_to_dict [''v 0 0 0\<newline>'', ''v 1 0 0\<newline>'', ''v 0 1 0\<newline>'', ''f 1 2 3\<newline>'']
     = Inr \<lparr>vertices = [Finite 0, Finite 0, Finite 0, Finite 1, Finite 0, Finite 0,
                          Finite 0, Finite 1, Finite 0],
             indices = [0, 1, 2]\<rparr>
   \<and> list_all (\<lambda>r. 1 \<le> r \<and> r \<le> int (length (filter is_vertex_line
          [''v 0 0 0\<newline>'', ''v 1 0 0\<newline>'', ''v 0 1 0\<newline>'', ''f 1 2 3\<newline>''])))
        (concat (map face_refs
          [''v 0 0 0\<newline>'', ''v 1 0 0\<newline>'', ''v 0 1 0\<newline>'', ''f 1 2 3\<newline>'']))
   \<and> indices_in_range \<lparr>vertices = [Finite 0, Finite 0, Finite 0, Finite 1, Finite 0, Finite 0,
                          Finite 0, Finite 1, Finite 0],
             indices = [0, 1, 2]\<rparr>"
proof -
  have refs: "list_all (\<lambda>r. 1 \<le> r \<and> r \<le> int (length (filter is_vertex_line
          [''v 0 0 0\<newline>'', ''v 1 0 0\<newline>'', ''v 0 1 0\<newline>'', ''f 1 2 3\<newline>''])))
        (concat (map face_refs
          [''v 0 0 0\<newline>'', ''v 1 0 0\<newline>'', ''v 0 1 0\<newline>'', ''f 1 2 3\<newline>'']))"
    unfolding triangle_vertex_lines triangle_face_refs by simp
  from indices_in_range_when_refs_valid [OF triangle_run refs] triangle_run refs
  show ?thesis by blast
qed

section \<open>The output file\<close>




section \<open>Lines without effect\<close>

text \<open>
  C8. A line that is blank once everything from its first \<^verbatim>\<open>#\<close> on is removed, or
  whose first token then is neither \<^verbatim>\<open>v\<close> nor \<^verbatim>\<open>f\<close>, is processed without error and
  leaves both lists as they were; taking it out of an input does not change the
  conversion.
\<close>

theorem ignored_line_no_effect:
  assumes "list_all isspace (before_hash l)
     \<or> (\<exists>kw ops. split_ws (before_hash l) = kw # ops \<and> kw \<noteq> ''v'' \<and> kw \<noteq> ''f'')"
  shows "process_line d l = Inr d
    \<and> obj_to_dict (pre @ l # post) = obj_to_dict (pre @ post)"
proof -
  have step: "process_line d l = Inr d" for d
    using assms by (auto simp: process_line_def line_data_eq split_ws_nil_iff [symmetric])
  show ?thesis
    unfolding obj_to_dict_def using step process_lines_skip_line [of l, OF step] by simp
qed

theorem ignored_line_no_effect_witness:
  "list_all isspace (before_hash ''  # v 1 2 3\<newline>'')
   \<and> process_line \<lparr>vertices = [Finite 1], indices = [7]\<rparr> ''  # v 1 2 3\<newline>''
       = Inr \<lparr>vertices = [Finite 1], indices = [7]\<rparr>
   \<and> split_ws (before_hash ''vt 0.5 0.5\<newline>'') = ''vt'' # [''0.5'', ''0.5'']
   \<and> ''vt'' \<noteq> ''v'' \<and> ''vt'' \<noteq> ''f''
   \<and> process_line \<lparr>vertices = [Finite 1], indices = [7]\<rparr> ''vt 0.5 0.5\<newline>''
       = Inr \<lparr>vertices = [Finite 1], indices = [7]\<rparr>
   \<and> obj_to_dict [''vt 0.5 0.5\<newline>'', ''  # v 1 2 3\<newline>'']
       = Inr \<lparr>vertices = [], indices = []\<rparr>"
proof -
  have other: "\<exists>kw ops. split_ws (before_hash ''vt 0.5 0.5\<newline>'') = kw # ops
      \<and> kw \<noteq> ''v'' \<and> kw \<noteq> ''f''"
    by (simp add: data_vt)
  note c = ignored_line_no_effect [OF disjI1, OF comment_line_blank]
  note t = ignored_line_no_effect [OF disjI2, OF other]
  have "obj_to_dict [''vt 0.5 0.5\<newline>'', ''  # v 1 2 3\<newline>''] = obj_to_dict []"
    using t [where pre = "[]" and post = "[''  # v 1 2 3\<newline>'']"]
      c [where pre = "[]" and post = "[]"]
    by simp
  then have "obj_to_dict [''vt 0.5 0.5\<newline>'', ''  # v 1 2 3\<newline>'']
      = Inr \<lparr>vertices = [], indices = []\<rparr>"
    by (simp add: obj_to_dict_def)
  with c [of "\<lparr>vertices = [Finite 1], indices = [7]\<rparr>"]
    t [of "\<lparr>vertices = [Finite 1], indices = [7]\<rparr>"] comment_line_blank data_vt
  show ?thesis by simp
qed

section \<open>Operands that are not numbers\<close>

text \<open>
  C9 fails as stated: the operands are counted before any of them is read as a number,
  so the line \<^verbatim>\<open>v abc\<close>, whose operand is no float, raises the format error and not a
  numeric-parse error.
\<close>

theorem unparsable_with_wrong_count_counterexample:
  "line_data ''v abc'' = [''v'', ''abc'']
   \<and> py_float ''abc'' = None
   \<and> obj_to_dict [''v abc'']
       = Inl (FormatError ''All vertices must be 3D, at least one vertex is 1D'')"
  using vertex_line_arity [OF data_v_abc, of "\<lparr>vertices = [], indices = []\<rparr>"]
  by (simp add: data_v_abc py_float_abc obj_to_dict_def show_nat.simps)

text \<open>
  C9, amended. A \<^verbatim>\<open>v\<close> line with an operand that is no float, or an \<^verbatim>\<open>f\<close> line with an
  operand whose text in front of the first \<^verbatim>\<open>/\<close> is no integer, fails in every state, and
  every input that contains it fails: no line is skipped. When the line has exactly
  three operands and the lines in front of it are processed without error, the run
  fails with the numeric-parse error of one of its operands.
\<close>

theorem unparsable_number_aborts:
  assumes "line_data l = kw # ops"
    and "(kw = ''v'' \<and> v \<in> set ops \<and> py_float v = None)
       \<or> (kw = ''f'' \<and> v \<in> set ops \<and> py_int (before_slash v) = None)"
  shows "(\<exists>e. process_line d l = Inl e)
    \<and> (\<exists>e. obj_to_dict (pre @ l # post) = Inl e)
    \<and> (length ops = 3 \<and> obj_to_dict pre = Inr d' \<longrightarrow>
         (\<exists>u. u \<in> set ops \<and>
           (if kw = ''v''
            then py_float u = None
              \<and> obj_to_dict (pre @ l # post) = Inl (FloatParseError u)
            else py_int (before_slash u) = None
              \<and> obj_to_dict (pre @ l # post) = Inl (IntParseError (before_slash u)))))"
proof -
  from bad_number_line_fails(1) [OF assms] obtain e where e: "\<And>d. process_line d l = Inl e"
    by blast
  have a: "\<exists>e. process_line d l = Inl e" using e by blast
  have b: "\<exists>e. obj_to_dict (pre @ l # post) = Inl e"
    unfolding obj_to_dict_def using process_lines_failing_line(1) [of l e, OF e] .
  have c: "\<exists>u. u \<in> set ops \<and>
           (if kw = ''v''
            then py_float u = None
              \<and> obj_to_dict (pre @ l # post) = Inl (FloatParseError u)
            else py_int (before_slash u) = None
              \<and> obj_to_dict (pre @ l # post) = Inl (IntParseError (before_slash u)))"
    if len: "length ops = 3" and pre: "obj_to_dict pre = Inr d'"
  proof -
    from bad_number_line_fails(2) [OF assms len] obtain u where u: "u \<in> set ops"
      and r: "if kw = ''v'' then py_float u = None \<and> (\<forall>d. process_line d l = Inl (FloatParseError u))
         else py_int (before_slash u) = None
           \<and> (\<forall>d. process_line d l = Inl (IntParseError (before_slash u)))"
      by blast
    show ?thesis
    proof (cases "kw = ''v''")
      case True
      with r have f: "\<And>d. process_line d l = Inl (FloatParseError u)" and n: "py_float u = None"
        by simp_all
      from process_lines_failing_line(2) [of l _ _ pre d' post, OF f] pre u n True
      show ?thesis by (auto simp: obj_to_dict_def)
    next
      case False
      with r have f: "\<And>d. process_line d l = Inl (IntParseError (before_slash u))"
        and n: "py_int (before_slash u) = None"
        by simp_all
      from process_lines_failing_line(2) [of l _ _ pre d' post, OF f] pre u n False
      show ?thesis by (auto simp: obj_to_dict_def)
    qed
  qed
  from a b c show ?thesis by blast
qed

theorem unparsable_number_aborts_witness:
  "line_data ''v 1 abc 0\<newline>'' = ''v'' # [''1'', ''abc'', ''0'']
   \<and> ''abc'' \<in> set [''1'', ''abc'', ''0''] \<and> py_float ''abc'' = None
   \<and> length [''1'', ''abc'', ''0''] = 3
   \<and> obj_to_dict [] = Inr \<lparr>vertices = [], indices = []\<rparr>
   \<and> obj_to_dict [''v 1 abc 0\<newline>''] = Inl (FloatParseError ''abc'')
   \<and> line_data ''f 1 x/2 3\<newline>'' = ''f'' # [''1'', ''x/2'', ''3'']
   \<and> ''x/2'' \<in> set [''1'', ''x/2'', ''3''] \<and> py_int (before_slash ''x/2'') = None
   \<and> obj_to_dict [''f 1 x/2 3\<newline>''] = Inl (IntParseError ''x'')"
proof -
  have empty: "obj_to_dict [] = Inr \<lparr>vertices = [], indices = []\<rparr>"
    by (simp add: obj_to_dict_def)
  have "(''v'' = ''v'' \<and> ''abc'' \<in> set [''1'', ''abc'', ''0''] \<and> py_float ''abc'' = None)
      \<or> (''v'' = ''f'' \<and> ''abc'' \<in> set [''1'', ''abc'', ''0'']
          \<and> py_int (before_slash ''abc'') = None)"
    by (simp add: py_float_abc)
  from unparsable_number_aborts [OF data_v_bad this, where pre = "[]" and post = "[]"
      and d = "\<lparr>vertices = [], indices = []\<rparr>"
      and d' = "\<lparr>vertices = [], indices = []\<rparr>"] empty
  have v: "obj_to_dict [''v 1 abc 0\<newline>''] = Inl (FloatParseError ''abc'')"
    by (auto simp: py_float_0 py_float_1)
  have "(''f'' = ''v'' \<and> ''x/2'' \<in> set [''1'', ''x/2'', ''3''] \<and> py_float ''x/2'' = None)
      \<or> (''f'' = ''f'' \<and> ''x/2'' \<in> set [''1'', ''x/2'', ''3'']
          \<and> py_int (before_slash ''x/2'') = None)"
    by (simp add: before_slash_x py_int_x)
  from unparsable_number_aborts [OF data_f_bad this, where pre = "[]" and post = "[]"
      and d = "\<lparr>vertices = [], indices = []\<rparr>"
      and d' = "\<lparr>vertices = [], indices = []\<rparr>"] empty
  have f: "obj_to_dict [''f 1 x/2 3\<newline>''] = Inl (IntParseError ''x'')"
    by (auto simp: before_slash_plain before_slash_x py_int_1 py_int_3)
  from v f empty show ?thesis
    by (simp add: data_v_bad data_f_bad py_float_abc before_slash_x py_int_x)
qed

section \<open>Non-finite coordinates\<close>

text \<open>
  C10. Some inputs are accepted although their coordinates are not finite: \<^verbatim>\<open>float\<close> reads
  \<^verbatim>\<open>nan\<close>, \<^verbatim>\<open>inf\<close>, \<^verbatim>\<open>-inf\<close> and \<^verbatim>\<open>-Infinity\<close>, so the line \<^verbatim>\<open>v nan inf -inf\<close> is
  processed without error and appends three non-finite values to the vertex list,
  whatever the lists held before.
\<close>

theorem nonfinite_coordinates_accepted:
  "process_line d ''v nan inf -inf'' = Inr (d\<lparr>vertices := vertices d @ [NaN, PosInf, NegInf]\<rparr>)
   \<and> obj_to_dict [''v nan inf -inf''] = Inr \<lparr>vertices = [NaN, PosInf, NegInf], indices = []\<rparr>
   \<and> obj_to_dict [''v -Infinity 0 0''] = Inr \<lparr>vertices = [NegInf, Finite 0, Finite 0], indices = []\<rparr>"
  by (simp add: obj_to_dict_def
      process_line_vertex [OF data_nonfinite py_float_nan py_float_inf py_float_minus_inf]
      process_line_vertex [OF data_Infinity py_float_minus_Infinity py_float_0 py_float_0])

end
